theory Spec2Isabelle
  imports Main "HOL-Library.AList"
begin

section \<open>Strings, numbers and thrown values\<close>

text \<open>
  A JavaScript string is modelled as a \<^typ>\<open>string\<close>, one list element for each
  of its UTF-16 code units, so \<^const>\<open>length\<close> is \<open>.length\<close>, \<^const>\<open>take\<close> is
  \<open>substring(0, n)\<close> and \<open>@\<close> is \<open>+\<close> on strings. The alphabet is \<^typ>\<open>char\<close>;
  which characters a text holds matters only to \<open>trim\<close>.

  Every value the program throws, or rejects a promise with, is an \<open>error\<close>:
  \<open>Error m\<close> is \<open>new Error(m)\<close>, \<open>SyntaxError\<close> is what \<open>JSON.parse\<close> throws,
  \<open>TypeError\<close> is a property read on \<open>null\<close>/\<open>undefined\<close> or a call of a
  non-function (the texts are engine-specific wording, nothing depends on them), and
  \<open>ProgressEvent\<close> is the event object \<open>FileReader.onerror\<close> hands to \<open>reject\<close>.
\<close>

datatype error =
    Error string
  | SyntaxError string
  | TypeError string
  | ProgressEvent

text \<open>\<open>err.message\<close>: an event object has no such property.\<close>

fun message :: "error \<Rightarrow> string option" where
  "message (Error m) = Some m"
| "message (SyntaxError m) = Some m"
| "message (TypeError m) = Some m"
| "message ProgressEvent = None"

text \<open>The decimal rendering of a non-negative integer, as a template literal prints it.\<close>

definition digit :: "nat \<Rightarrow> char" where
  "digit d = ''0123456789'' ! d"

function toString_nat :: "nat \<Rightarrow> string" where
  "toString_nat n =
     (if n < 10 then [digit n] else toString_nat (n div 10) @ [digit (n mod 10)])"
  by pat_completeness auto
termination
  by (relation "measure id") auto

declare toString_nat.simps [simp del]

section \<open>File ingestion (utils/fileUtils.ts)\<close>

text \<open>
  \<open>FileData\<close> is the interface of types.ts. A browser \<open>File\<close> carries the same
  \<open>name\<close> and \<open>size\<close>, and \<open>readAsText\<close> is what reading it delivers: the decoded
  text to \<open>onload\<close>, or \<open>None\<close> when the reader fires \<open>onerror\<close> instead, whose
  event object is what the promise is rejected with.
\<close>

record named_sized =
  name :: string
  size' :: nat

record FileData = named_sized +
  content :: string

record File = named_sized +
  readAsText :: "string option"

definition MAX_CHARS :: nat where
  "MAX_CHARS = 150000"

definition readFileAsText :: "File \<Rightarrow> error + FileData" where
  "readFileAsText file =
     (case readAsText file of
        None \<Rightarrow> Inl ProgressEvent
      | Some result \<Rightarrow>
          let truncatedContent =
                (if length result > MAX_CHARS
                 then take MAX_CHARS result @ ''\<newline>...[TRUNCATED]''
                 else result)
          in Inr \<lparr>name = name file, size' = size' file, content = truncatedContent\<rparr>)"

section \<open>Prompt assembly (analyzeFiles, services/geminiService.ts)\<close>

text \<open>
  The \<open>forEach\<close> loop over the files, with its index and the text accumulated so far.
\<close>

fun forEach_prompt :: "nat \<Rightarrow> FileData list \<Rightarrow> string \<Rightarrow> string" where
  "forEach_prompt index [] promptText = promptText"
| "forEach_prompt index (file # rest) promptText =
     forEach_prompt (index + 1) rest
       ((promptText @ ''--- FILE '' @ toString_nat (index + 1) @ '': '' @ name file
           @ '' ---\<newline>'')
         @ content file @ ''\<newline>\<newline>'')"

definition promptText :: "FileData list \<Rightarrow> string" where
  "promptText files =
     forEach_prompt 0 files ''Analyze the following CSV files:\<newline>\<newline>''
       @ ''\<newline>Provide a detailed analysis following the ConTima structure.''"

text \<open>
  The same block in the words of the specification: per file, a delimiter line
  \<open>--- FILE i: name ---\<close> and then the file's text.
\<close>

definition delimiter_line :: "nat \<Rightarrow> string \<Rightarrow> string" where
  "delimiter_line i n = ''--- FILE '' @ toString_nat i @ '': '' @ n @ '' ---\<newline>''"

definition file_block :: "nat \<Rightarrow> FileData \<Rightarrow> string" where
  "file_block i f = delimiter_line i (name f) @ content f @ ''\<newline>\<newline>''"

definition closing_directive :: string where
  "closing_directive = ''\<newline>Provide a detailed analysis following the ConTima structure.''"

section \<open>JavaScript values\<close>

text \<open>
  What \<open>JSON.parse\<close> returns and what the program builds from it. Numbers are IEEE
  doubles; the program only moves them, so their carrier is the type parameter \<open>'n\<close>.
  An object is the list of its own properties in creation order, read with
  \<^const>\<open>map_of\<close>. \<open>JUndefined\<close> is \<open>undefined\<close>: no parsed text contains it, but
  a flattened record can.
\<close>

datatype 'n json =
    JUndefined
  | JNull
  | JBool bool
  | JNumber 'n
  | JString string
  | JArray "'n json list"
  | JObject "(string \<times> 'n json) list"

type_synonym 'n fields = "(string \<times> 'n json) list"

text \<open>
  The built-ins the program calls: \<open>Number.prototype.toString\<close>, \<open>JSON.parse\<close>
  (a rejected text is the thrown error) and \<open>JSON.stringify\<close>.
\<close>

record 'n builtins =
  Number_toString :: "'n \<Rightarrow> string"
  JSON_parse :: "string \<Rightarrow> error + 'n json"
  JSON_stringify :: "'n json \<Rightarrow> string"

fun join :: "string \<Rightarrow> string list \<Rightarrow> string" where
  "join sep [] = []"
| "join sep [x] = x"
| "join sep (x # y # ys) = x @ sep @ join sep (y # ys)"

text \<open>
  \<open>ToString\<close>, which turns the value of a computed property name (\<open>[chart.xAxisKey]\<close>,
  \<open>dataPoint[s.key]\<close>) into the property's name. A string is its own name.
\<close>

fun ToString :: "('n \<Rightarrow> string) \<Rightarrow> 'n json \<Rightarrow> string" where
  "ToString nts JUndefined = ''undefined''"
| "ToString nts JNull = ''null''"
| "ToString nts (JBool b) = (if b then ''true'' else ''false'')"
| "ToString nts (JNumber n) = nts n"
| "ToString nts (JString s) = s"
| "ToString nts (JArray xs) =
     join '','' (map (\<lambda>x. if x = JNull \<or> x = JUndefined then [] else ToString nts x) xs)"
| "ToString nts (JObject fs) = ''[object Object]''"

text \<open>
  A property read \<open>v.k\<close>, for the names this program reads (\<open>charts\<close>, \<open>data\<close>,
  \<open>xAxisKey\<close>, \<open>name\<close>, \<open>series\<close>, \<open>key\<close>, \<open>value\<close> and the three summary fields):
  on \<open>null\<close> and \<open>undefined\<close> it throws, on an object it is the own property or
  \<open>undefined\<close>, and no string, number, boolean or array has a property of these names.
\<close>

fun get_prop :: "'n json \<Rightarrow> string \<Rightarrow> error + 'n json" where
  "get_prop JUndefined k = Inl (TypeError ''Cannot read properties of undefined'')"
| "get_prop JNull k = Inl (TypeError ''Cannot read properties of null'')"
| "get_prop (JObject fs) k = Inr (case map_of fs k of None \<Rightarrow> JUndefined | Some v \<Rightarrow> v)"
| "get_prop _ k = Inr JUndefined"

text \<open>
  The assignment \<open>dataPoint[k] = v\<close> on an object literal's value: an own property is
  overwritten in place, a new one is appended. The name \<open>__proto__\<close> is the setter
  inherited from \<open>Object.prototype\<close> unless the object has an own property of that
  name, and the setter adds no own property.
\<close>

definition assign :: "string \<Rightarrow> 'n json \<Rightarrow> 'n fields \<Rightarrow> 'n fields" where
  "assign k v fs =
     (if k = ''__proto__'' \<and> map_of fs k = None then fs else AList.update k v fs)"

text \<open>The own enumerable properties that \<open>{...v}\<close> copies.\<close>

definition spread :: "'n json \<Rightarrow> 'n fields" where
  "spread v =
     (case v of
        JObject fs \<Rightarrow> fs
      | JArray xs \<Rightarrow> map (\<lambda>(i, x). (toString_nat i, x)) (enumerate 0 xs)
      | JString s \<Rightarrow> map (\<lambda>(i, c). (toString_nat i, JString [c])) (enumerate 0 s)
      | _ \<Rightarrow> [])"

text \<open>\<open>Array.prototype.map\<close> with a callback that may throw: the first throw ends it.\<close>

fun map_throwing :: "('a \<Rightarrow> error + 'b) \<Rightarrow> 'a list \<Rightarrow> error + 'b list" where
  "map_throwing f [] = Inr []"
| "map_throwing f (x # xs) =
     (case f x of
        Inl e \<Rightarrow> Inl e
      | Inr y \<Rightarrow> (case map_throwing f xs of Inl e \<Rightarrow> Inl e | Inr ys \<Rightarrow> Inr (y # ys)))"

section \<open>Response normalization (analyzeFiles, services/geminiService.ts)\<close>

text \<open>\<open>item.series.forEach(s => { dataPoint[s.key] = s.value })\<close>.\<close>

fun forEach_series ::
  "('n \<Rightarrow> string) \<Rightarrow> 'n json list \<Rightarrow> 'n fields \<Rightarrow> error + 'n fields" where
  "forEach_series nts [] dataPoint = Inr dataPoint"
| "forEach_series nts (s # rest) dataPoint =
     (case get_prop s ''key'' of
        Inl e \<Rightarrow> Inl e
      | Inr key \<Rightarrow>
          (case get_prop s ''value'' of
             Inl e \<Rightarrow> Inl e
           | Inr val \<Rightarrow> forEach_series nts rest (assign (ToString nts key) val dataPoint)))"

text \<open>
  The callback of \<open>chart.data?.map\<close>: the record starts as
  \<open>{ [chart.xAxisKey]: item.name }\<close>; \<open>item.series && Array.isArray(item.series)\<close>
  holds exactly for an array, every array being truthy.
\<close>

definition flatten_item :: "('n \<Rightarrow> string) \<Rightarrow> 'n json \<Rightarrow> 'n json \<Rightarrow> error + 'n json" where
  "flatten_item nts chart item =
     (case get_prop chart ''xAxisKey'' of
        Inl e \<Rightarrow> Inl e
      | Inr xAxisKey \<Rightarrow>
          (case get_prop item ''name'' of
             Inl e \<Rightarrow> Inl e
           | Inr nm \<Rightarrow>
               (case get_prop item ''series'' of
                  Inl e \<Rightarrow> Inl e
                | Inr (JArray series) \<Rightarrow>
                    (case forEach_series nts series [(ToString nts xAxisKey, nm)] of
                       Inl e \<Rightarrow> Inl e
                     | Inr dataPoint \<Rightarrow> Inr (JObject dataPoint))
                | Inr _ \<Rightarrow> Inr (JObject [(ToString nts xAxisKey, nm)]))))"

text \<open>
  The callback of \<open>result.charts.map\<close>. \<open>chart.data?.map(...) || []\<close> is \<open>[]\<close> for a
  \<open>data\<close> that is \<open>undefined\<close> or \<open>null\<close>, the mapped array for an array, and a call of
  \<open>undefined\<close> for anything else. The result is \<open>{ ...chart, data: flatData }\<close>.
\<close>

definition flatten_chart :: "('n \<Rightarrow> string) \<Rightarrow> 'n json \<Rightarrow> error + 'n json" where
  "flatten_chart nts chart =
     (case get_prop chart ''data'' of
        Inl e \<Rightarrow> Inl e
      | Inr data \<Rightarrow>
          (case (case data of
                   JUndefined \<Rightarrow> Inr []
                 | JNull \<Rightarrow> Inr []
                 | JArray items \<Rightarrow> map_throwing (flatten_item nts chart) items
                 | _ \<Rightarrow> Inl (TypeError ''chart.data?.map is not a function'')) of
             Inl e \<Rightarrow> Inl e
           | Inr flatData \<Rightarrow>
               Inr (JObject (AList.update ''data'' (JArray flatData) (spread chart)))))"

text \<open>
  The block \<open>if (result.charts && Array.isArray(result.charts)) { result.charts = ... }\<close>.
  Only an object has a \<open>charts\<close> property to be an array, so the assignment overwrites
  an own property.
\<close>

definition flatten_charts :: "('n \<Rightarrow> string) \<Rightarrow> 'n json \<Rightarrow> error + 'n json" where
  "flatten_charts nts result =
     (case get_prop result ''charts'' of
        Inl e \<Rightarrow> Inl e
      | Inr (JArray charts) \<Rightarrow>
          (case map_throwing (flatten_chart nts) charts of
             Inl e \<Rightarrow> Inl e
           | Inr charts' \<Rightarrow>
               Inr (case result of
                      JObject fs \<Rightarrow> JObject (AList.update ''charts'' (JArray charts') fs)
                    | _ \<Rightarrow> result))
      | Inr _ \<Rightarrow> Inr result)"

text \<open>
  \<open>analyzeFiles\<close>. \<open>API_KEY\<close> is \<open>process.env.API_KEY\<close>; \<open>generateContent\<close> is the
  model call, from the prompt text (the system instruction and the schema are constants)
  to \<open>response.text\<close> or the error it rejects with. The \<open>catch\<close> rethrows.
\<close>

definition analyzeFiles ::
  "'n builtins \<Rightarrow> (string \<Rightarrow> error + string option) \<Rightarrow> string option \<Rightarrow> FileData list
     \<Rightarrow> error + 'n json" where
  "analyzeFiles B generateContent API_KEY files =
     (if API_KEY = None \<or> API_KEY = Some []
      then Inl (Error ''API Key is missing. Please set the API_KEY environment variable.'')
      else
        (case generateContent (promptText files) of
           Inl e \<Rightarrow> Inl e
         | Inr None \<Rightarrow> Inl (Error ''No response from Gemini'')
         | Inr (Some text) \<Rightarrow>
             (if text = [] then Inl (Error ''No response from Gemini'')
              else
                (case JSON_parse B text of
                   Inl e \<Rightarrow> Inl e
                 | Inr result \<Rightarrow> flatten_charts (Number_toString B) result))))"

section \<open>Chat context seeding (initializeChat, services/geminiService.ts)\<close>

fun forEach_context :: "nat \<Rightarrow> FileData list \<Rightarrow> string \<Rightarrow> string" where
  "forEach_context i [] contextMsg = contextMsg"
| "forEach_context i (f # rest) contextMsg =
     forEach_context (i + 1) rest
       (contextMsg @ ''--- FILE '' @ toString_nat (i + 1) @ '': '' @ name f @ '' ---\<newline>''
          @ content f @ ''\<newline>\<newline>'')"

text \<open>The seed message; the three reads of \<open>analysis\<close> build \<open>analysisSummary\<close>.\<close>

definition contextMsg :: "'n builtins \<Rightarrow> FileData list \<Rightarrow> 'n json \<Rightarrow> error + string" where
  "contextMsg B files analysis =
     (case get_prop analysis ''combinedStrategicInsights'' of
        Inl e \<Rightarrow> Inl e
      | Inr insights \<Rightarrow>
          (case get_prop analysis ''recommendations'' of
             Inl e \<Rightarrow> Inl e
           | Inr recommendations \<Rightarrow>
               (case get_prop analysis ''filesDetected'' of
                  Inl e \<Rightarrow> Inl e
                | Inr filesDetected \<Rightarrow>
                    Inr (forEach_context 0 files
                           ''Here is the context for our session:\<newline>\<newline>''
                         @ ''--- INITIAL ANALYSIS SUMMARY ---\<newline>''
                         @ JSON_stringify B
                             (JObject [(''insights'', insights),
                                       (''recommendations'', recommendations),
                                       (''filesDetected'', filesDetected)])
                         @ ''\<newline>\<newline>''
                         @ ''Please acknowledge you have received the data and are ready for questions. Do not repeat the analysis.''))))"

text \<open>
  \<open>initializeChat\<close>: \<open>sendMessage\<close> is the silent first exchange on the new chat, giving
  the seeded chat or the error it rejects with.
\<close>

definition initializeChat ::
  "'n builtins \<Rightarrow> (string \<Rightarrow> error + 'c) \<Rightarrow> string option \<Rightarrow> FileData list \<Rightarrow> 'n json
     \<Rightarrow> error + 'c" where
  "initializeChat B sendMessage API_KEY files analysis =
     (if API_KEY = None \<or> API_KEY = Some []
      then Inl (Error ''API Key is missing.'')
      else
        (case contextMsg B files analysis of
           Inl e \<Rightarrow> Inl e
         | Inr seed \<Rightarrow> sendMessage seed))"

section \<open>Workflow (App.tsx)\<close>

datatype AppState = IDLE | ANALYZING | COMPLETE | ERROR

record 'n App =
  files :: "File list"
  fileDataList :: "FileData list"
  appState :: AppState
  analysisData :: "'n json option"
  errorMsg :: "string option"


text \<open>
  \<open>Promise.all\<close> over settled promises: the values in order, or a rejection when one
  of them rejected. Which rejection it delivers depends on the order of settling; every
  rejection of \<open>readFileAsText\<close> is the same error event, and the model takes the first
  in list order.
\<close>

fun Promise_all :: "(error + 'a) list \<Rightarrow> error + 'a list" where
  "Promise_all [] = Inr []"
| "Promise_all (Inl e # ps) = Inl e"
| "Promise_all (Inr v # ps) = (case Promise_all ps of Inl e \<Rightarrow> Inl e | Inr vs \<Rightarrow> Inr (v # vs))"

text \<open>The \<open>catch\<close> block of \<open>handleAnalyze\<close>.\<close>

definition catch_analyze :: "error \<Rightarrow> 'n App \<Rightarrow> 'n App" where
  "catch_analyze err st =
     st\<lparr>appState := ERROR,
        errorMsg := Some (case message err of
                            None \<Rightarrow> ''An unexpected error occurred during analysis.''
                          | Some m \<Rightarrow>
                              if m = [] then ''An unexpected error occurred during analysis.''
                              else m)\<rparr>"

text \<open>
  \<open>handleAnalyze\<close>, from the state it is called in to the state when it has finished;
  \<open>analyze\<close> is \<open>analyzeFiles\<close> with its environment.
\<close>

definition handleAnalyze :: "(FileData list \<Rightarrow> error + 'n json) \<Rightarrow> 'n App \<Rightarrow> 'n App" where
  "handleAnalyze analyze st =
     (if files st = [] then st
      else
        (let st1 = st\<lparr>appState := ANALYZING, errorMsg := None\<rparr>
         in case Promise_all (map readFileAsText (files st)) of
              Inl err \<Rightarrow> catch_analyze err st1
            | Inr dataList \<Rightarrow>
                (let st2 = st1\<lparr>fileDataList := dataList\<rparr>
                 in case analyze dataList of
                      Inl err \<Rightarrow> catch_analyze err st2
                    | Inr result \<Rightarrow> st2\<lparr>analysisData := Some result, appState := COMPLETE\<rparr>)))"

section \<open>Chat turns (components/ChatInterface.tsx)\<close>

datatype role = User | Model

record ChatMessage =
  id' :: string
  role :: role
  text' :: string
  isStreaming :: "bool option"

text \<open>\<open>String.prototype.trim\<close>, on the white space of the ASCII range.\<close>

definition whitespace :: "char \<Rightarrow> bool" where
  "whitespace c = (c \<in> {CHR 0x09, CHR 0x0A, CHR 0x0B, CHR 0x0C, CHR 0x0D, CHR '' ''})"

definition trim :: "string \<Rightarrow> string" where
  "trim s = rev (dropWhile whitespace (rev (dropWhile whitespace s)))"

text \<open>
  A call of \<open>handleSend\<close> that has passed its guard is suspended at one of its two
  \<open>await\<close> points: before \<open>sendMessageStream\<close> has resolved, or inside the
  \<open>for await\<close> loop, where it holds its locals \<open>botMessageId\<close> and \<open>fullText\<close>.
  The component's state is its React state, \<open>chatSession\<close> for
  \<open>chatSessionRef.current\<close> being set, and the calls that are suspended.
\<close>

datatype invocation =
    Awaiting_stream
  | Reading_stream string string

record Chat =
  messages :: "ChatMessage list"
  input :: string
  isInitializing :: bool
  isTyping :: bool
  chatSession :: bool
  running :: "invocation list"

text \<open>
  What can happen to the component: the mount effect's \<open>initializeChat\<close> settles, the
  user edits the input, the user sends (at clock reading \<open>now\<close>), and for the suspended
  call number \<open>i\<close>: the stream opens, a chunk with \<open>chunk.text\<close> arrives, the stream
  ends, or the awaited promise rejects.
\<close>

datatype event =
    Init_resolved
  | Init_rejected
  | Input string
  | Send nat
  | Stream_opened nat nat
  | Chunk nat "string option"
  | Stream_ended nat
  | Rejected nat nat

definition mounted :: Chat where
  "mounted = \<lparr>messages = [], input = [], isInitializing = True, isTyping = False,
              chatSession = False, running = []\<rparr>"

text \<open>\<open>handleSend\<close> up to its first \<open>await\<close>.\<close>

definition handleSend :: "nat \<Rightarrow> Chat \<Rightarrow> Chat" where
  "handleSend now st =
     (if trim (input st) = [] \<or> \<not> chatSession st \<or> isTyping st then st
      else st\<lparr>messages := messages st
                  @ [\<lparr>id' = toString_nat now, role = User, text' = trim (input st),
                       isStreaming = None\<rparr>],
              input := [],
              isTyping := True,
              running := running st @ [Awaiting_stream]\<rparr>)"

text \<open>The \<open>finally\<close> block, which ends call \<open>i\<close>.\<close>

definition finally_send :: "nat \<Rightarrow> Chat \<Rightarrow> Chat" where
  "finally_send i st =
     st\<lparr>isTyping := False, running := take i (running st) @ drop (Suc i) (running st)\<rparr>"

definition step :: "event \<Rightarrow> Chat \<Rightarrow> Chat" where
  "step ev st =
     (case ev of
        Init_resolved \<Rightarrow>
          (if isInitializing st
           then st\<lparr>chatSession := True,
                   messages := [\<lparr>id' = ''welcome'', role = Model,
                                 text' = ''I've reviewed your files and the report. I can help you drill deeper into specific metrics, explain trends, or brainstorm content ideas based on this data. What would you like to know?'',
                                 isStreaming = None\<rparr>],
                   isInitializing := False\<rparr>
           else st)
      | Init_rejected \<Rightarrow>
          (if isInitializing st
           then st\<lparr>messages := [\<lparr>id' = ''error'', role = Model,
                                 text' = ''I'm sorry, I couldn't connect to the analysis engine. Please try refreshing the page.'',
                                 isStreaming = None\<rparr>],
                   isInitializing := False\<rparr>
           else st)
      | Input s \<Rightarrow> st\<lparr>input := s\<rparr>
      | Send now \<Rightarrow> handleSend now st
      | Stream_opened i now \<Rightarrow>
          (if i < length (running st) \<and> running st ! i = Awaiting_stream
           then st\<lparr>messages := messages st
                       @ [\<lparr>id' = toString_nat (now + 1), role = Model, text' = [],
                            isStreaming = Some True\<rparr>],
                   running := (running st)[i := Reading_stream (toString_nat (now + 1)) []]\<rparr>
           else st)
      | Chunk i c \<Rightarrow>
          (if i < length (running st)
           then (case running st ! i of
                   Reading_stream botMessageId fullText \<Rightarrow>
                     (case c of
                        None \<Rightarrow> st
                      | Some t \<Rightarrow>
                          if t = [] then st
                          else st\<lparr>messages :=
                                    map (\<lambda>msg. if id' msg = botMessageId
                                               then msg\<lparr>text' := fullText @ t\<rparr> else msg)
                                      (messages st),
                                  running := (running st)
                                    [i := Reading_stream botMessageId (fullText @ t)]\<rparr>)
                 | Awaiting_stream \<Rightarrow> st)
           else st)
      | Stream_ended i \<Rightarrow>
          (if i < length (running st)
           then (case running st ! i of
                   Reading_stream botMessageId fullText \<Rightarrow>
                     finally_send i
                       (st\<lparr>messages :=
                             map (\<lambda>msg. if id' msg = botMessageId
                                        then msg\<lparr>isStreaming := Some False\<rparr> else msg)
                               (messages st)\<rparr>)
                 | Awaiting_stream \<Rightarrow> st)
           else st)
      | Rejected i now \<Rightarrow>
          (if i < length (running st)
           then finally_send i
                  (st\<lparr>messages := messages st
                         @ [\<lparr>id' = toString_nat now, role = Model,
                              text' = ''I encountered an error processing your request. Please try again.'',
                              isStreaming = None\<rparr>]\<rparr>)
           else st))"

definition run :: "event list \<Rightarrow> Chat" where
  "run evs = foldl (\<lambda>st ev. step ev st) mounted evs"

text \<open>The messages in streaming state.\<close>

definition streaming :: "Chat \<Rightarrow> ChatMessage list" where
  "streaming st = filter (\<lambda>m. isStreaming m = Some True) (messages st)"

section \<open>The specification's notions\<close>







section \<open>Sample values\<close>

text \<open>
  A runtime for the examples, with integers for numbers. The theorems hold for every
  runtime; the examples need one that computes. \<open>JSON_parse_sample\<close> is \<open>JSON.parse\<close>
  on the two texts \<open>{}\<close> and \<open>null\<close>; the only other text of the examples, \<open>oops\<close>,
  is not JSON. \<open>JSON_stringify_sample\<close> leaves out the escapes of control
  characters.
\<close>

definition toString_int :: "int \<Rightarrow> string" where
  "toString_int n = (if n < 0 then ''-'' else []) @ toString_nat (nat \<bar>n\<bar>)"

definition JSON_parse_sample :: "string \<Rightarrow> error + int json" where
  "JSON_parse_sample t =
     (if t = ''{}'' then Inr (JObject [])
      else if t = ''null'' then Inr JNull
      else Inl (SyntaxError ''Unexpected token''))"

definition quote :: "string \<Rightarrow> string" where
  "quote s =
     [CHR 0x22]
       @ concat (map (\<lambda>c. if c = CHR 0x22 \<or> c = CHR 0x5C then [CHR 0x5C, c] else [c]) s)
       @ [CHR 0x22]"

fun JSON_stringify_sample :: "int json \<Rightarrow> string" where
  "JSON_stringify_sample JUndefined = ''undefined''"
| "JSON_stringify_sample JNull = ''null''"
| "JSON_stringify_sample (JBool b) = (if b then ''true'' else ''false'')"
| "JSON_stringify_sample (JNumber n) = toString_int n"
| "JSON_stringify_sample (JString s) = quote s"
| "JSON_stringify_sample (JArray xs) =
     ''['' @ join '',''
              (map (\<lambda>x. if x = JUndefined then ''null'' else JSON_stringify_sample x) xs)
       @ '']''"
| "JSON_stringify_sample (JObject fs) =
     ''{'' @ join '',''
              (map (\<lambda>kv. quote (fst kv) @ '':'' @ JSON_stringify_sample (snd kv))
                 (filter (\<lambda>kv. snd kv \<noteq> JUndefined) fs))
       @ ''}''"

definition sample_builtins :: "int builtins" where
  "sample_builtins =
     \<lparr>Number_toString = toString_int, JSON_parse = JSON_parse_sample,
      JSON_stringify = JSON_stringify_sample\<rparr>"

text \<open>A model call that answers with the given \<open>response.text\<close>, and a chat that
  accepts its seed.\<close>

definition respond :: "string option \<Rightarrow> string \<Rightarrow> error + string option" where
  "respond response_text prompt = Inr response_text"

definition accept_seed :: "string \<Rightarrow> error + string list" where
  "accept_seed seed = Inr [seed]"



definition chart_views_flat :: "int json" where
  "chart_views_flat =
     JObject [(''title'', JString ''Views''), (''type'', JString ''bar''),
              (''xAxisKey'', JString ''date''), (''dataKeys'', JArray [JString ''views'']),
              (''data'', JArray [JObject [(''date'', JString ''Jan''),
                                          (''views'', JNumber 10)]])]"





text \<open>Two analysis results that differ in a narrative section and in the charts.\<close>

definition analysis_one :: "int json" where
  "analysis_one =
     JObject [(''filesDetected'', JArray [JObject [(''name'', JString ''views.csv''),
                                                   (''purpose'', JString ''Performance'')]]),
              (''revenue'', JString ''Revenue grew.''),
              (''combinedStrategicInsights'', JString ''Post weekly.''),
              (''recommendations'', JArray []),
              (''charts'', JArray [chart_views_flat])]"

definition analysis_two :: "int json" where
  "analysis_two =
     JObject [(''filesDetected'', JArray [JObject [(''name'', JString ''views.csv''),
                                                   (''purpose'', JString ''Performance'')]]),
              (''revenue'', JString ''Revenue fell.''),
              (''retention'', JString ''Viewers stay.''),
              (''combinedStrategicInsights'', JString ''Post weekly.''),
              (''recommendations'', JArray [])]"

text \<open>Files, readable and not, and a fresh workflow state.\<close>

definition csv :: "string \<Rightarrow> string option \<Rightarrow> File" where
  "csv n t = \<lparr>name = n, size' = (case t of None \<Rightarrow> 0 | Some s \<Rightarrow> length s), readAsText = t\<rparr>"

definition idle :: "File list \<Rightarrow> int App" where
  "idle fs = \<lparr>files = fs, fileDataList = [], appState = IDLE, analysisData = None,
              errorMsg = None\<rparr>"

text \<open>
  A chat in which the first reply fails in mid-stream, up to the user's next input.
\<close>

definition failed_turn :: "event list" where
  "failed_turn =
     [Init_resolved, Input ''why?'', Send 10, Stream_opened 0 11, Chunk 0 (Some ''Be''),
      Rejected 0 12, Input ''again'']"

section \<open>Properties of ingestion and prompt assembly\<close>

lemma forEach_prompt_blocks:
  "forEach_prompt i fs acc =
     acc @ concat (map (\<lambda>j. file_block (i + j + 1) (fs ! j)) [0..<length fs])"
proof (induction fs arbitrary: i acc)
  case Nil
  show ?case by simp
next
  case (Cons f fs)
  have shift: "[0..<length (f # fs)] = 0 # map Suc [0..<length fs]"
    by (simp add: upt_conv_Cons map_Suc_upt del: upt_Suc)
  show ?case
    unfolding shift
    by (simp add: Cons.IH file_block_def delimiter_line_def comp_def)
qed

text \<open>
  Claim C2. Reading a file whose text has length \<open>L\<close> resolves with a record whose
  content is the whole text when \<open>L \<le> 150000\<close>, and otherwise the first 150000
  characters followed by the marker \<open>\n...[TRUNCATED]\<close>, once; so its length is
  \<open>min L 150000\<close>, plus the 15 characters of the marker exactly when
  \<open>L > 150000\<close>. Name and size are those of the file handle.
\<close>

theorem readFileAsText_truncates:
  assumes "readAsText file = Some text"
  shows "\<exists>r. readFileAsText file = Inr r
           \<and> content r = (if length text \<le> 150000 then text
                          else take 150000 text @ ''\<newline>...[TRUNCATED]'')
           \<and> length (content r) =
               min (length text) 150000 + (if length text > 150000 then 15 else 0)
           \<and> name r = name file \<and> size' r = size' file"
  using assms by (simp add: readFileAsText_def MAX_CHARS_def)

theorem readFileAsText_truncates_witness:
  "readAsText \<lparr>name = ''big.csv'', size' = 150001,
                readAsText = Some (replicate 150001 CHR ''x'')\<rparr>
     = Some (replicate 150001 CHR ''x'')
   \<and> (\<exists>r. readFileAsText \<lparr>name = ''big.csv'', size' = 150001,
                              readAsText = Some (replicate 150001 CHR ''x'')\<rparr> = Inr r
          \<and> content r = replicate 150000 CHR ''x'' @ ''\<newline>...[TRUNCATED]''
          \<and> length (content r) = 150015
          \<and> name r = ''big.csv'' \<and> size' r = 150001)"
  using readFileAsText_truncates
    [of "\<lparr>name = ''big.csv'', size' = 150001,
           readAsText = Some (replicate 150001 CHR ''x'')\<rparr>"
        "replicate 150001 CHR ''x''"]
  by simp

text \<open>
  Claim C8. The user-content block is the opening line, then for each file in the order
  given (numbered from 1) its delimiter line \<open>--- FILE i: name ---\<close> immediately
  followed by its content, then the closing directive. For the single file
  \<open>views.csv\<close> the block holds the line \<open>--- FILE 1: views.csv ---\<close> immediately
  followed by the file's text.
\<close>

theorem promptText_blocks:
  "promptText fs =
     ''Analyze the following CSV files:\<newline>\<newline>''
       @ concat (map (\<lambda>i. delimiter_line (i + 1) (name (fs ! i))
                          @ content (fs ! i) @ ''\<newline>\<newline>'')
                  [0..<length fs])
       @ closing_directive
   \<and> promptText [\<lparr>name = ''views.csv'', size' = n, content = rows\<rparr>] =
       ''Analyze the following CSV files:\<newline>\<newline>''
         @ ''--- FILE 1: views.csv ---\<newline>'' @ rows @ ''\<newline>\<newline>''
         @ closing_directive"
proof
  show "promptText fs =
     ''Analyze the following CSV files:\<newline>\<newline>''
       @ concat (map (\<lambda>i. delimiter_line (i + 1) (name (fs ! i))
                          @ content (fs ! i) @ ''\<newline>\<newline>'')
                  [0..<length fs])
       @ closing_directive"
    by (simp add: promptText_def forEach_prompt_blocks file_block_def closing_directive_def)
next
  have one: "toString_nat (Suc 0) = ''1''"
    by (simp add: toString_nat.simps digit_def)
  show "promptText [\<lparr>name = ''views.csv'', size' = n, content = rows\<rparr>] =
       ''Analyze the following CSV files:\<newline>\<newline>''
         @ ''--- FILE 1: views.csv ---\<newline>'' @ rows @ ''\<newline>\<newline>''
         @ closing_directive"
    by (simp add: promptText_def closing_directive_def one)
qed

section \<open>Properties of response normalization\<close>






























section \<open>Properties of chat seeding\<close>

text \<open>
  Claim C9. Two analysis results that read alike on every field other than
  \<open>contentPerformance\<close>, \<open>retention\<close>, \<open>revenue\<close>, \<open>thumbnails\<close> and \<open>charts\<close> give,
  for the same files, the same seed message, and \<open>initializeChat\<close> does the same with
  both.
\<close>

theorem contextMsg_depends:
  assumes "\<forall>k. k \<notin> {''contentPerformance'', ''retention'', ''revenue'', ''thumbnails'',
                    ''charts''}
             \<longrightarrow> get_prop a1 k = get_prop a2 k"
  shows "contextMsg B fs a1 = contextMsg B fs a2
         \<and> initializeChat B sendMessage API_KEY fs a1
             = initializeChat B sendMessage API_KEY fs a2"
proof -
  have same:
    "get_prop a1 ''combinedStrategicInsights'' = get_prop a2 ''combinedStrategicInsights''"
    "get_prop a1 ''recommendations'' = get_prop a2 ''recommendations''"
    "get_prop a1 ''filesDetected'' = get_prop a2 ''filesDetected''"
    using assms by simp_all
  have "contextMsg B fs a1 = contextMsg B fs a2"
    unfolding contextMsg_def same by (rule refl)
  then show ?thesis by (simp add: initializeChat_def)
qed

theorem contextMsg_depends_witness:
  "get_prop analysis_one ''revenue'' \<noteq> get_prop analysis_two ''revenue''
   \<and> get_prop analysis_one ''charts'' \<noteq> get_prop analysis_two ''charts''
   \<and> contextMsg sample_builtins [\<lparr>name = ''views.csv'', size' = 3, content = ''a,b''\<rparr>]
        analysis_one
       = contextMsg sample_builtins [\<lparr>name = ''views.csv'', size' = 3, content = ''a,b''\<rparr>]
           analysis_two
   \<and> initializeChat sample_builtins accept_seed (Some ''key'')
         [\<lparr>name = ''views.csv'', size' = 3, content = ''a,b''\<rparr>] analysis_one
       = initializeChat sample_builtins accept_seed (Some ''key'')
           [\<lparr>name = ''views.csv'', size' = 3, content = ''a,b''\<rparr>] analysis_two"
proof -
  have alike: "\<forall>k. k \<notin> {''contentPerformance'', ''retention'', ''revenue'', ''thumbnails'',
                           ''charts''}
        \<longrightarrow> get_prop analysis_one k = get_prop analysis_two k"
    by (simp add: analysis_one_def analysis_two_def)
  have differ: "get_prop analysis_one ''revenue'' \<noteq> get_prop analysis_two ''revenue''"
      "get_prop analysis_one ''charts'' \<noteq> get_prop analysis_two ''charts''"
    by (simp_all add: analysis_one_def analysis_two_def)
  from contextMsg_depends [OF alike] differ show ?thesis
    by blast
qed

section \<open>Properties of the workflow\<close>

lemma readFileAsText_rejects:
  "readFileAsText f = Inl e \<Longrightarrow> e = ProgressEvent \<and> readAsText f = None"
  by (auto simp: readFileAsText_def Let_def split: option.splits)

lemma Promise_all_rejects:
  "Inl e \<in> set ps \<Longrightarrow> \<exists>e'. Inl e' \<in> set ps \<and> Promise_all ps = Inl e'"
proof (induction ps rule: Promise_all.induct)
  case 1
  then show ?case by simp
next
  case (2 e0 ps)
  then show ?case by auto
next
  case (3 v ps)
  then show ?case by auto
qed

text \<open>
  Claim C5. When the read of at least one selected file fails, the wait for all reads
  is a single rejection, and \<open>handleAnalyze\<close> ends in the error state with the generic
  message; whatever \<open>analyze\<close> is, it plays no part, and \<open>analysisData\<close> is what it was
  before: no analysis result is produced. Three files of which the second cannot be
  read are the witness.
\<close>

theorem handleAnalyze_read_failure:
  assumes "f \<in> set (files st)" and "readAsText f = None"
  shows "Promise_all (map readFileAsText (files st)) = Inl ProgressEvent
         \<and> handleAnalyze analyze st
             = st\<lparr>appState := ERROR,
                  errorMsg := Some ''An unexpected error occurred during analysis.''\<rparr>
         \<and> appState (handleAnalyze analyze st) = ERROR
         \<and> analysisData (handleAnalyze analyze st) = analysisData st"
proof -
  have "readFileAsText f = Inl ProgressEvent"
    using assms(2) by (simp add: readFileAsText_def)
  with assms(1) have "Inl ProgressEvent \<in> set (map readFileAsText (files st))"
    by force
  from Promise_all_rejects [OF this] obtain e' where
    e': "Inl e' \<in> set (map readFileAsText (files st))" and
    pa: "Promise_all (map readFileAsText (files st)) = Inl e'"
    by blast
  from e' have "e' = ProgressEvent"
    using readFileAsText_rejects by fastforce
  with pa have rejected: "Promise_all (map readFileAsText (files st)) = Inl ProgressEvent"
    by simp
  from assms(1) have ne: "files st \<noteq> []" by auto
  have "handleAnalyze analyze st
             = st\<lparr>appState := ERROR,
                  errorMsg := Some ''An unexpected error occurred during analysis.''\<rparr>"
    using ne rejected by (simp add: handleAnalyze_def catch_analyze_def)
  with rejected show ?thesis by simp
qed

theorem handleAnalyze_read_failure_witness:
  "csv ''b.csv'' None \<in> set (files (idle [csv ''a.csv'' (Some ''x,y''), csv ''b.csv'' None,
                                           csv ''c.csv'' (Some ''u,v'')]))
   \<and> readAsText (csv ''b.csv'' None) = None
   \<and> Promise_all (map readFileAsText [csv ''a.csv'' (Some ''x,y''), csv ''b.csv'' None,
                                       csv ''c.csv'' (Some ''u,v'')]) = Inl ProgressEvent
   \<and> appState (handleAnalyze (analyzeFiles sample_builtins (respond (Some ''{}'')) (Some ''key''))
        (idle [csv ''a.csv'' (Some ''x,y''), csv ''b.csv'' None, csv ''c.csv'' (Some ''u,v'')]))
       = ERROR
   \<and> analysisData (handleAnalyze (analyzeFiles sample_builtins (respond (Some ''{}'')) (Some ''key''))
        (idle [csv ''a.csv'' (Some ''x,y''), csv ''b.csv'' None, csv ''c.csv'' (Some ''u,v'')]))
       = None"
proof -
  have h1: "csv ''b.csv'' None
      \<in> set (files (idle [csv ''a.csv'' (Some ''x,y''), csv ''b.csv'' None,
                           csv ''c.csv'' (Some ''u,v'')]))"
    by (simp add: idle_def)
  have h2: "readAsText (csv ''b.csv'' None) = None"
    by (simp add: csv_def)
  have fs: "files (idle [csv ''a.csv'' (Some ''x,y''), csv ''b.csv'' None,
                          csv ''c.csv'' (Some ''u,v'')])
      = [csv ''a.csv'' (Some ''x,y''), csv ''b.csv'' None, csv ''c.csv'' (Some ''u,v'')]"
    and ad: "analysisData (idle [csv ''a.csv'' (Some ''x,y''), csv ''b.csv'' None,
                                 csv ''c.csv'' (Some ''u,v'')]) = None"
    by (simp_all add: idle_def)
  have "Promise_all (map readFileAsText
            (files (idle [csv ''a.csv'' (Some ''x,y''), csv ''b.csv'' None,
                          csv ''c.csv'' (Some ''u,v'')]))) = Inl ProgressEvent
     \<and> appState (handleAnalyze
            (analyzeFiles sample_builtins (respond (Some ''{}'')) (Some ''key''))
            (idle [csv ''a.csv'' (Some ''x,y''), csv ''b.csv'' None,
                   csv ''c.csv'' (Some ''u,v'')])) = ERROR
     \<and> analysisData (handleAnalyze
            (analyzeFiles sample_builtins (respond (Some ''{}'')) (Some ''key''))
            (idle [csv ''a.csv'' (Some ''x,y''), csv ''b.csv'' None,
                   csv ''c.csv'' (Some ''u,v'')]))
         = analysisData (idle [csv ''a.csv'' (Some ''x,y''), csv ''b.csv'' None,
                               csv ''c.csv'' (Some ''u,v'')])"
    using handleAnalyze_read_failure
      [OF h1 h2, of "analyzeFiles sample_builtins (respond (Some ''{}'')) (Some ''key'')"]
    by blast
  then show ?thesis
    using h1 h2 by (simp add: fs ad)
qed





section \<open>Properties of chat turns\<close>

text \<open>
  The guard of \<open>handleSend\<close> does what it is there for: while \<open>isTyping\<close> is set a
  send changes nothing, and along every run at most one call of \<open>handleSend\<close> is
  suspended, \<open>isTyping\<close> being set exactly while there is one.
\<close>

lemma handleSend_while_typing: "isTyping st \<Longrightarrow> step (Send now) st = st"
  by (simp add: step_def handleSend_def)

lemma step_single_call:
  assumes "length (running st) \<le> 1 \<and> (isTyping st \<longleftrightarrow> running st \<noteq> [])"
  shows "length (running (step ev st)) \<le> 1
         \<and> (isTyping (step ev st) \<longleftrightarrow> running (step ev st) \<noteq> [])"
proof (cases "running st")
  case Nil
  with assms show ?thesis
    by (cases ev) (auto simp: step_def handleSend_def finally_send_def)
next
  case (Cons c cs)
  with assms have one: "running st = [c]" and typing: "isTyping st"
    by auto
  show ?thesis
  proof (cases ev)
    case (Stream_opened i now)
    with one typing show ?thesis
      by (cases c) (auto simp: step_def)
  next
    case (Chunk i t)
    with one typing show ?thesis
      by (cases c; cases t) (auto simp: step_def)
  next
    case (Stream_ended i)
    with one typing show ?thesis
      by (cases c) (auto simp: step_def finally_send_def)
  next
    case (Rejected i now)
    with one typing show ?thesis
      by (auto simp: step_def finally_send_def)
  qed (use one typing in \<open>auto simp: step_def handleSend_def\<close>)
qed

lemma run_single_call:
  "length (running (run evs)) \<le> 1 \<and> (isTyping (run evs) \<longleftrightarrow> running (run evs) \<noteq> [])"
proof (induction evs rule: rev_induct)
  case Nil
  show ?case by (simp add: run_def mounted_def)
next
  case (snoc ev evs)
  have "run (evs @ [ev]) = step ev (run evs)"
    by (simp add: run_def)
  with step_single_call [OF snoc.IH, of ev] show ?case
    by simp
qed

text \<open>
  Claim C6, evaluated on the code. In the run \<open>failed_turn\<close> the first reply fails in
  mid-stream: its placeholder keeps \<open>isStreaming = true\<close>, \<open>isTyping\<close> is cleared, and so
  the state has a model message in streaming state and yet accepts the next send, which
  lengthens the message list. Once the stream of that second turn opens, two model
  messages are in streaming state.
\<close>

theorem streaming_after_failed_stream:
  "length (streaming (run failed_turn)) = 1
   \<and> isTyping (run failed_turn) = False
   \<and> length (messages (step (Send 20) (run failed_turn)))
       = Suc (length (messages (run failed_turn)))
   \<and> map id' (streaming (run (failed_turn @ [Send 20, Stream_opened 0 21])))
       = [''12'', ''22'']
   \<and> length (streaming (run (failed_turn @ [Send 20, Stream_opened 0 21]))) = 2"
  by code_simp


end
